theory Spec2Isabelle
  imports Main "HOL-Library.AList"
begin

section \<open>The create-accounts-status handler\<close>

text \<open>
  A shallow embedding of
  \<^verbatim>\<open>constructs/lib/aws-organizations/create-accounts-status/index.ts\<close>:
  the Lambda handler that, on each invocation, takes one account configuration from the
  DynamoDB table of new accounts, creates the account or polls its creation, and on
  success records the GovCloud mapping, moves the account out of the root and deletes the
  configuration row.

  The two DynamoDB tables are association lists in scan order, the AWS services are a
  record of outcomes (\<open>Env\<close>) given for one invocation, and every call the handler makes
  through \<^verbatim>\<open>throttlingBackOff\<close> is appended to a log of calls. A promise that
  rejects, a \<^verbatim>\<open>throw\<close> and a property read on undefined are all values of \<open>error\<close>; the
  world is returned beside the error, since writes made before a throw stay made.
\<close>

subsection \<open>Data\<close>

text \<open>
  What \<^verbatim>\<open>JSON.parse\<close> may put into a field. The interface declares
  \<^verbatim>\<open>enableGovCloud: string\<close>, but the parsed text is not checked against the
  interface, so the field is kept as a JSON value and \<^verbatim>\<open>=== 'true'\<close> is a
  comparison of such values. \<open>JUndefined\<close> is the absent field.
\<close>

datatype jsvalue = JUndefined | JNull | JBool bool | JNumber int | JString string

record AccountConfig =
  name :: string
  description :: string
  email :: string
  enableGovCloud :: jsvalue
  organizationalUnit :: string
  organizationalUnitId :: string
  createRequestId :: "string option"

type_synonym AccountConfigs = "AccountConfig list"

text \<open>
  The fields of the Organizations responses that the handler reads, each optional as in
  the SDK's types. The field \<^verbatim>\<open>Id\<close> is \<open>Id'\<close> in the status and \<open>RootId\<close> in a
  root, the plain name being taken in HOL.
\<close>

record CreateAccountStatus =
  Id' :: "string option"
  AccountName :: "string option"
  State :: "string option"
  AccountId :: "string option"
  GovCloudAccountId :: "string option"
  FailureReason :: "string option"

record CreateAccountResponse =
  CreateAccountStatus :: "CreateAccountStatus option"

record Root =
  RootId :: "string option"
  Name :: "string option"

record ListRootsResponse =
  Roots :: "Root list option"

text \<open>
  A row of the table of new accounts: the key \<^verbatim>\<open>accountEmail\<close> and the attribute
  \<^verbatim>\<open>accountConfig\<close>, held as the value its JSON text parses to
  (\<^verbatim>\<open>JSON.stringify\<close> leaves an undefined \<^verbatim>\<open>createRequestId\<close> out and
  \<^verbatim>\<open>JSON.parse\<close> reads the missing field back as undefined). A row of the mapping
  table: the key \<^verbatim>\<open>commericalAccountId\<close> with \<^verbatim>\<open>govCloudAccountId\<close> and
  \<^verbatim>\<open>accountName\<close>, the latter absent when the item was put with an undefined name.
\<close>

type_synonym AccountRow = "string \<times> AccountConfig"
type_synonym MappingRow = "string \<times> (string \<times> string option)"

record ScanOutput =
  Items :: "AccountRow list option"

record HandlerResult =
  IsComplete :: bool

datatype error =
    Rejected string
  | UpdateRecordFailed
  | CouldNotCreateAccount string "string option" "string option"
  | TypeError string

text \<open>
  \<open>Rejected\<close>: a wrapped call whose promise rejects (after the retries of the back-off);
  \<open>UpdateRecordFailed\<close>: the handler's
  \<^verbatim>\<open>Error('Unable to update DynamoDB account record with request id')\<close>;
  \<open>CouldNotCreateAccount\<close>: the handler's \<^verbatim>\<open>Could not create account\<close> error with
  the email, the state and the failure reason; \<open>TypeError\<close>: a property read on
  \<^verbatim>\<open>undefined\<close>, the one failure of a dereference that JavaScript itself raises.
\<close>

text \<open>
  The calls made through the back-off, with their arguments. A non-null assertion
  \<^verbatim>\<open>x!\<close> is erased by the TypeScript compiler: where the source writes
  \<^verbatim>\<open>AccountId!\<close>, \<^verbatim>\<open>AccountName!\<close> or \<^verbatim>\<open>rootOrg!.Id!\<close>, the optional
  value is handed on as it is, undefined included, so these arguments are optional here.
\<close>

datatype call =
    Scan
  | CreateAccount string string
  | CreateGovCloudAccount string string
  | DescribeCreateAccountStatus string
  | ListRoots
  | MoveAccount "string option" string "string option"
  | PutAccountConfig string AccountConfig
  | DeleteAccountConfig string
  | PutGovCloudMapping "string option" string "string option"

record World =
  newOrgAccountsTable :: "AccountRow list"
  govCloudAccountMappingTable :: "MappingRow list"
  calls :: "call list"

text \<open>
  The outcomes of the wrapped calls during one invocation: the promise rejects with a
  message or resolves with the response. For the three writes and the move the response
  is its HTTP status code, the only part the code reads; the scan resolves with the
  first row of the table (\<^verbatim>\<open>Limit: 1\<close>) unless it rejects. What a service or the
  SDK does with an undefined argument is part of the outcome it gives.
\<close>

datatype 'a promise = Rejects string | Resolves 'a

record Env =
  scanRejects :: "string option"
  createAccountOutcome :: "string \<Rightarrow> string \<Rightarrow> CreateAccountResponse promise"
  createGovCloudAccountOutcome :: "string \<Rightarrow> string \<Rightarrow> CreateAccountResponse promise"
  describeCreateAccountStatusOutcome :: "string \<Rightarrow> CreateAccountResponse promise"
  listRootsOutcome :: "ListRootsResponse promise"
  moveAccountOutcome :: "string option \<Rightarrow> string \<Rightarrow> string option \<Rightarrow> nat promise"
  putAccountConfigOutcome :: "nat promise"
  deleteOutcome :: "nat promise"
  putMappingOutcome :: "nat promise"

subsection \<open>Sequencing with errors\<close>

type_synonym 'a io = "World \<Rightarrow> (error + 'a) \<times> World"

definition returnE :: "'a \<Rightarrow> 'a io" where
  "returnE x w = (Inr x, w)"

definition throwE :: "error \<Rightarrow> 'a io" where
  "throwE e w = (Inl e, w)"

definition bindE :: "'a io \<Rightarrow> ('a \<Rightarrow> 'b io) \<Rightarrow> 'b io" where
  "bindE m f w = (case m w of (Inl e, w') \<Rightarrow> (Inl e, w') | (Inr x, w') \<Rightarrow> f x w')"

definition logCall :: "call \<Rightarrow> World \<Rightarrow> World" where
  "logCall c w = w\<lparr>calls := calls w @ [c]\<rparr>"

text \<open>
  Modelled from the spec: \<^verbatim>\<open>throttlingBackOff\<close>, imported from the utils package
  and not part of this module, retries a throttled call and otherwise hands the call's
  result or error on unchanged. A wrapped call is therefore one logged call with its final
  outcome, which \<open>Env\<close> supplies. \<open>remoteCall\<close> is a wrapped call with no effect on the
  tables.
\<close>

definition remoteCall :: "call \<Rightarrow> 'a promise \<Rightarrow> 'a io" where
  "remoteCall c outcome w =
     (case outcome of
        Rejects msg \<Rightarrow> (Inl (Rejected msg), logCall c w)
      | Resolves response \<Rightarrow> (Inr response, logCall c w))"

text \<open>
  Modelled from the spec: the effect of the DynamoDB writes, whose tables are declared
  outside this module. A put without a condition is an upsert by key and a delete removes
  by key; the table of new accounts is keyed by \<^verbatim>\<open>accountEmail\<close> (the key the
  delete names) and the mapping table by the commercial account id; an item put without
  its key stores no row. \<open>storeWrite\<close> is a
  wrapped write: logged, then its outcome; the table changes when the write resolves with
  status 200, which is what the code reads as success.
\<close>

definition storeWrite :: "call \<Rightarrow> nat promise \<Rightarrow> (World \<Rightarrow> World) \<Rightarrow> nat io" where
  "storeWrite c outcome effect w =
     (case outcome of
        Rejects msg \<Rightarrow> (Inl (Rejected msg), logCall c w)
      | Resolves statusCode \<Rightarrow>
          (Inr statusCode, if statusCode = 200 then effect (logCall c w) else logCall c w))"

text \<open>JavaScript truthiness of an optional string.\<close>

definition truthy :: "string option \<Rightarrow> bool" where
  "truthy v = (case v of None \<Rightarrow> False | Some s \<Rightarrow> s \<noteq> [])"

subsection \<open>The functions of the module\<close>

definition getSingleAccountConfigFromTable :: "Env \<Rightarrow> AccountConfigs io" where
  "getSingleAccountConfigFromTable env =
     bindE (\<lambda>w. remoteCall Scan
                   (case scanRejects env of
                      Some msg \<Rightarrow> Rejects msg
                    | None \<Rightarrow> Resolves \<lparr>Items = Some (take 1 (newOrgAccountsTable w))\<rparr>) w)
       (\<lambda>response.
          case Items response of
            None \<Rightarrow> returnE []
          | Some [] \<Rightarrow> returnE []
          | Some (item # _) \<Rightarrow> returnE [snd item])"

definition deleteSingleAccountConfigFromTable :: "Env \<Rightarrow> string \<Rightarrow> bool io" where
  "deleteSingleAccountConfigFromTable env accountToDeleteEmail =
     bindE (storeWrite (DeleteAccountConfig accountToDeleteEmail) (deleteOutcome env)
              (\<lambda>w. w\<lparr>newOrgAccountsTable :=
                        AList.delete accountToDeleteEmail (newOrgAccountsTable w)\<rparr>))
       (\<lambda>statusCode. if statusCode = 200 then returnE True else returnE False)"

definition createOrganizationAccount :: "Env \<Rightarrow> string \<Rightarrow> string \<Rightarrow> CreateAccountResponse io" where
  "createOrganizationAccount env accountEmail accountName =
     remoteCall (CreateAccount accountEmail accountName)
       (createAccountOutcome env accountEmail accountName)"

definition createGovCloudAccount :: "Env \<Rightarrow> string \<Rightarrow> string \<Rightarrow> CreateAccountResponse io" where
  "createGovCloudAccount env accountEmail accountName =
     remoteCall (CreateGovCloudAccount accountEmail accountName)
       (createGovCloudAccountOutcome env accountEmail accountName)"

definition getAccountCreationStatus :: "Env \<Rightarrow> string \<Rightarrow> CreateAccountResponse io" where
  "getAccountCreationStatus env requestId =
     remoteCall (DescribeCreateAccountStatus requestId)
       (describeCreateAccountStatusOutcome env requestId)"

definition updateAccountConfig :: "Env \<Rightarrow> AccountConfig \<Rightarrow> bool io" where
  "updateAccountConfig env accountConfig =
     bindE (storeWrite (PutAccountConfig (email accountConfig) accountConfig)
              (putAccountConfigOutcome env)
              (\<lambda>w. w\<lparr>newOrgAccountsTable :=
                        AList.update (email accountConfig) accountConfig
                          (newOrgAccountsTable w)\<rparr>))
       (\<lambda>statusCode. if statusCode = 200 then returnE True else returnE False)"

definition moveAccountToOrgIdFromRoot :: "Env \<Rightarrow> string option \<Rightarrow> string \<Rightarrow> bool io" where
  "moveAccountToOrgIdFromRoot env accountId orgId =
     bindE (remoteCall ListRoots (listRootsOutcome env))
       (\<lambda>roots.
          let rootOrg = (case Roots roots of
                           None \<Rightarrow> None
                         | Some rs \<Rightarrow> find (\<lambda>item. Name item = Some ''Root'') rs)
          in case rootOrg of
               None \<Rightarrow> throwE (TypeError ''rootOrg'')
             | Some r \<Rightarrow>
                 bindE (remoteCall (MoveAccount accountId orgId (RootId r))
                          (moveAccountOutcome env accountId orgId (RootId r)))
                   (\<lambda>statusCode.
                      if statusCode = 200 then returnE True else returnE False))"

definition saveGovCloudAccountMapping ::
  "Env \<Rightarrow> string option \<Rightarrow> string \<Rightarrow> string option \<Rightarrow> bool io" where
  "saveGovCloudAccountMapping env commericalAccountId govCloudAccountId accountName =
     bindE (storeWrite (PutGovCloudMapping commericalAccountId govCloudAccountId accountName)
              (putMappingOutcome env)
              (\<lambda>w. case commericalAccountId of
                      None \<Rightarrow> w
                    | Some key \<Rightarrow>
                        w\<lparr>govCloudAccountMappingTable :=
                            AList.update key (govCloudAccountId, accountName)
                              (govCloudAccountMappingTable w)\<rparr>))
       (\<lambda>statusCode. if statusCode = 200 then returnE True else returnE False)"

text \<open>
  The \<^verbatim>\<open>case 'SUCCEEDED'\<close> statements, which the source writes out once under the
  create call and once under the status call (they differ in what they log): the mapping
  when a GovCloud id came back, the move, the delete. The three booleans are dropped, as
  in the source, and the \<^verbatim>\<open>break\<close> leads to the final
  \<^verbatim>\<open>return { IsComplete: false }\<close>. \<open>the\<close> is applied to the GovCloud id only
  where it is truthy, and in the handler to \<open>CreateAccountStatus\<close> only where a state was
  read from it and to \<open>createRequestId\<close> only where it is a non-empty string.
\<close>

definition succeeded :: "Env \<Rightarrow> AccountConfig \<Rightarrow> CreateAccountStatus \<Rightarrow> HandlerResult io" where
  "succeeded env singleAccountToAdd status =
     bindE (if truthy (GovCloudAccountId status)
            then bindE (saveGovCloudAccountMapping env (AccountId status)
                          (the (GovCloudAccountId status)) (AccountName status))
                   (\<lambda>_. returnE ())
            else returnE ())
       (\<lambda>_.
          bindE (moveAccountToOrgIdFromRoot env (AccountId status)
                   (organizationalUnitId singleAccountToAdd))
            (\<lambda>_.
               bindE (deleteSingleAccountConfigFromTable env (email singleAccountToAdd))
                 (\<lambda>_. returnE \<lparr>IsComplete = False\<rparr>)))"

definition stateOf :: "CreateAccountResponse \<Rightarrow> string option" where
  "stateOf response =
     (case CreateAccountStatus response of None \<Rightarrow> None | Some status \<Rightarrow> State status)"

definition failureReasonOf :: "CreateAccountResponse \<Rightarrow> string option" where
  "failureReasonOf response =
     (case CreateAccountStatus response of None \<Rightarrow> None | Some status \<Rightarrow> FailureReason status)"

definition handler :: "Env \<Rightarrow> HandlerResult io" where
  "handler env =
     bindE (getSingleAccountConfigFromTable env)
       (\<lambda>accountToAdd.
          case accountToAdd of
            [] \<Rightarrow> returnE \<lparr>IsComplete = True\<rparr>
          | singleAccountToAdd # _ \<Rightarrow>
              if createRequestId singleAccountToAdd = Some []
                 \<or> createRequestId singleAccountToAdd = None
              then
                bindE (if enableGovCloud singleAccountToAdd = JString ''true''
                       then createGovCloudAccount env (email singleAccountToAdd)
                              (name singleAccountToAdd)
                       else createOrganizationAccount env (email singleAccountToAdd)
                              (name singleAccountToAdd))
                  (\<lambda>createAccountResponse.
                     if stateOf createAccountResponse = Some ''IN_PROGRESS'' then
                       bindE (updateAccountConfig env
                                (singleAccountToAdd\<lparr>createRequestId :=
                                   Id' (the (CreateAccountStatus createAccountResponse))\<rparr>))
                         (\<lambda>updateAccountConfigResponse.
                            if \<not> updateAccountConfigResponse
                            then throwE UpdateRecordFailed
                            else returnE \<lparr>IsComplete = False\<rparr>)
                     else if stateOf createAccountResponse = Some ''SUCCEEDED'' then
                       succeeded env singleAccountToAdd
                         (the (CreateAccountStatus createAccountResponse))
                     else
                       throwE (CouldNotCreateAccount (email singleAccountToAdd)
                                 (stateOf createAccountResponse)
                                 (failureReasonOf createAccountResponse)))
              else
                bindE (getAccountCreationStatus env (the (createRequestId singleAccountToAdd)))
                  (\<lambda>createAccountStatusResponse.
                     if stateOf createAccountStatusResponse = Some ''IN_PROGRESS'' then
                       returnE \<lparr>IsComplete = False\<rparr>
                     else if stateOf createAccountStatusResponse = Some ''SUCCEEDED'' then
                       succeeded env singleAccountToAdd
                         (the (CreateAccountStatus createAccountStatusResponse))
                     else
                       throwE (CouldNotCreateAccount (email singleAccountToAdd)
                                 (stateOf createAccountStatusResponse)
                                 (failureReasonOf createAccountStatusResponse))))"

text \<open>The calls that one invocation adds to the log.\<close>

definition issued :: "Env \<Rightarrow> World \<Rightarrow> call list" where
  "issued env w = drop (length (calls w)) (calls (snd (handler env w)))"

subsection \<open>Repeated invocation\<close>

text \<open>
  The caller invokes the handler again and again; each invocation meets its own outcomes.
  \<open>invocations\<close> runs the handler once per element of the list, whatever each
  invocation returns or throws, and yields the world after the last one.
\<close>

fun invocations :: "Env list \<Rightarrow> World \<Rightarrow> World" where
  "invocations [] w = w"
| "invocations (env # envs) w = invocations envs (snd (handler env w))"

definition issuedBy :: "Env list \<Rightarrow> World \<Rightarrow> call list" where
  "issuedBy envs w = drop (length (calls w)) (calls (invocations envs w))"

subsection \<open>Calls, results and outcomes\<close>

text \<open>A call of either Create API for the email \<open>k\<close>.\<close>

fun isCreateFor :: "string \<Rightarrow> call \<Rightarrow> bool" where
  "isCreateFor k (CreateAccount accountEmail _) = (accountEmail = k)"
| "isCreateFor k (CreateGovCloudAccount accountEmail _) = (accountEmail = k)"
| "isCreateFor k _ = False"

text \<open>Every stored configuration for the email \<open>k\<close> carries a non-empty request id.\<close>

definition submitted :: "string \<Rightarrow> AccountRow list \<Rightarrow> bool" where
  "submitted k table =
     list_all (\<lambda>row. email (snd row) \<noteq> k \<or> truthy (createRequestId (snd row))) table"

text \<open>A write to either table.\<close>

fun isWrite :: "call \<Rightarrow> bool" where
  "isWrite (PutAccountConfig _ _) = True"
| "isWrite (DeleteAccountConfig _) = True"
| "isWrite (PutGovCloudMapping _ _ _) = True"
| "isWrite _ = False"

text \<open>
  The root that \<^verbatim>\<open>roots.Roots?.find(item => item.Name === 'Root')\<close> yields, as
  \<open>moveAccountToOrgIdFromRoot\<close> computes it.
\<close>

definition rootOrgOf :: "ListRootsResponse \<Rightarrow> Root option" where
  "rootOrgOf roots =
     (case Roots roots of
        None \<Rightarrow> None
      | Some rs \<Rightarrow> find (\<lambda>item. Name item = Some ''Root'') rs)"

text \<open>The result is the error of a failed dereference.\<close>

fun dereferenceFailed :: "error + 'a \<Rightarrow> bool" where
  "dereferenceFailed (Inl (TypeError _)) = True"
| "dereferenceFailed _ = False"

text \<open>The result is the rejection of a wrapped call.\<close>

fun callRejected :: "error + 'a \<Rightarrow> bool" where
  "callRejected (Inl (Rejected _)) = True"
| "callRejected _ = False"

text \<open>
  The SDK's promise resolves on an HTTP success, which these services answer with status
  200, and rejects on an HTTP error status: a status other than 200 is not among the
  outcomes it delivers resolved. \<open>resolvesOk\<close> says that an outcome keeps to this.
\<close>

fun resolvesOk :: "nat promise \<Rightarrow> bool" where
  "resolvesOk (Resolves statusCode) = (statusCode = 200)"
| "resolvesOk (Rejects _) = True"

text \<open>The call is no write, or it is a write whose outcome confirms success.\<close>

fun confirmed :: "Env \<Rightarrow> call \<Rightarrow> bool" where
  "confirmed env (PutAccountConfig _ _) = (putAccountConfigOutcome env = Resolves 200)"
| "confirmed env (DeleteAccountConfig _) = (deleteOutcome env = Resolves 200)"
| "confirmed env (PutGovCloudMapping _ _ _) = (putMappingOutcome env = Resolves 200)"
| "confirmed env _ = True"

text \<open>A delete from the table of new accounts.\<close>

fun isDelete :: "call \<Rightarrow> bool" where
  "isDelete (DeleteAccountConfig _) = True"
| "isDelete _ = False"

subsection \<open>Values for the examples\<close>

definition exampleConfig :: AccountConfig where
  "exampleConfig =
     \<lparr>name = ''a'', description = ''an account'', email = ''a@x.com'',
      enableGovCloud = JString ''false'', organizationalUnit = ''Workloads'',
      organizationalUnitId = ''ou-1'', createRequestId = None\<rparr>"

definition inProgressResponse :: CreateAccountResponse where
  "inProgressResponse =
     \<lparr>CreateAccountStatus = Some
        \<lparr>Id' = Some ''req-1'', AccountName = Some ''a'', State = Some ''IN_PROGRESS'',
         AccountId = None, GovCloudAccountId = None, FailureReason = None\<rparr>\<rparr>"

definition succeededResponse :: CreateAccountResponse where
  "succeededResponse =
     \<lparr>CreateAccountStatus = Some
        \<lparr>Id' = Some ''req-1'', AccountName = Some ''a'', State = Some ''SUCCEEDED'',
         AccountId = Some ''111'', GovCloudAccountId = None, FailureReason = None\<rparr>\<rparr>"

definition exampleEnv :: Env where
  "exampleEnv =
     \<lparr>scanRejects = None,
      createAccountOutcome = (\<lambda>_ _. Resolves inProgressResponse),
      createGovCloudAccountOutcome = (\<lambda>_ _. Resolves inProgressResponse),
      describeCreateAccountStatusOutcome = (\<lambda>_. Resolves succeededResponse),
      listRootsOutcome = Resolves \<lparr>Roots = Some [\<lparr>RootId = Some ''r-1'', Name = Some ''Root''\<rparr>]\<rparr>,
      moveAccountOutcome = (\<lambda>_ _ _. Resolves 200),
      putAccountConfigOutcome = Resolves 200,
      deleteOutcome = Resolves 200,
      putMappingOutcome = Resolves 200\<rparr>"

definition exampleWorld :: World where
  "exampleWorld =
     \<lparr>newOrgAccountsTable = [(''a@x.com'', exampleConfig)],
      govCloudAccountMappingTable = [],
      calls = []\<rparr>"

text \<open>The same world once the request id has been stored.\<close>

definition pendingWorld :: World where
  "pendingWorld =
     \<lparr>newOrgAccountsTable = [(''a@x.com'', exampleConfig\<lparr>createRequestId := Some ''req-1''\<rparr>)],
      govCloudAccountMappingTable = [],
      calls = []\<rparr>"

text \<open>Outcomes under which the status call still reports the creation in progress.\<close>

definition waitingEnv :: Env where
  "waitingEnv = exampleEnv\<lparr>describeCreateAccountStatusOutcome := (\<lambda>_. Resolves inProgressResponse)\<rparr>"

text \<open>The example world with another value in \<open>enableGovCloud\<close>.\<close>

definition exampleWorldWith :: "jsvalue \<Rightarrow> World" where
  "exampleWorldWith v =
     \<lparr>newOrgAccountsTable = [(''a@x.com'', exampleConfig\<lparr>enableGovCloud := v\<rparr>)],
      govCloudAccountMappingTable = [],
      calls = []\<rparr>"

text \<open>A succeeded response with a GovCloud id, and one that also lacks the account name.\<close>

definition govSucceededResponse :: CreateAccountResponse where
  "govSucceededResponse =
     \<lparr>CreateAccountStatus = Some
        \<lparr>Id' = Some ''req-1'', AccountName = Some ''a'', State = Some ''SUCCEEDED'',
         AccountId = Some ''111'', GovCloudAccountId = Some ''222'', FailureReason = None\<rparr>\<rparr>"

definition govNoNameResponse :: CreateAccountResponse where
  "govNoNameResponse =
     \<lparr>CreateAccountStatus = Some
        \<lparr>Id' = Some ''req-1'', AccountName = None, State = Some ''SUCCEEDED'',
         AccountId = Some ''111'', GovCloudAccountId = Some ''222'', FailureReason = None\<rparr>\<rparr>"

definition govNoNameEnv :: Env where
  "govNoNameEnv =
     exampleEnv\<lparr>describeCreateAccountStatusOutcome := (\<lambda>_. Resolves govNoNameResponse)\<rparr>"

text \<open>Outcomes under which one call rejects, as the SDK delivers an HTTP error.\<close>

definition moveRejectsEnv :: Env where
  "moveRejectsEnv = exampleEnv\<lparr>moveAccountOutcome := (\<lambda>_ _ _. Rejects ''ServiceException'')\<rparr>"

definition deleteRejectsEnv :: Env where
  "deleteRejectsEnv = exampleEnv\<lparr>deleteOutcome := Rejects ''InternalServerError''\<rparr>"

definition mappingRejectsEnv :: Env where
  "mappingRejectsEnv =
     exampleEnv\<lparr>describeCreateAccountStatusOutcome := (\<lambda>_. Resolves govSucceededResponse),
                putMappingOutcome := Rejects ''InternalServerError''\<rparr>"

definition putRejectsEnv :: Env where
  "putRejectsEnv = exampleEnv\<lparr>putAccountConfigOutcome := Rejects ''InternalServerError''\<rparr>"

text \<open>Outcomes under which no root named \<open>Root\<close> is listed.\<close>

definition noRootEnv :: Env where
  "noRootEnv = exampleEnv\<lparr>listRootsOutcome := Resolves \<lparr>Roots = Some []\<rparr>\<rparr>"

definition govNoRootEnv :: Env where
  "govNoRootEnv =
     exampleEnv\<lparr>describeCreateAccountStatusOutcome := (\<lambda>_. Resolves govSucceededResponse),
                listRootsOutcome := Resolves \<lparr>Roots = Some []\<rparr>\<rparr>"

text \<open>A world whose mapping table already holds a row for the account 111.\<close>

definition mappedWorld :: World where
  "mappedWorld =
     exampleWorld\<lparr>govCloudAccountMappingTable := [(''111'', (''220'', Some ''old name''))]\<rparr>"

subsection \<open>Conditions used in the properties\<close>

text \<open>
  The outcome of the call whose state the handler switches on: the Create call of the
  chosen variant when no request id is stored, the status call otherwise.
\<close>

definition statusOutcome :: "Env \<Rightarrow> AccountConfig \<Rightarrow> CreateAccountResponse promise" where
  "statusOutcome env a =
     (if createRequestId a = Some [] \<or> createRequestId a = None
      then (if enableGovCloud a = JString ''true''
            then createGovCloudAccountOutcome env (email a) (name a)
            else createAccountOutcome env (email a) (name a))
      else describeCreateAccountStatusOutcome env (the (createRequestId a)))"

text \<open>That call as it appears in the log, and the calls of its three kinds.\<close>

fun isStatusCall :: "call \<Rightarrow> bool" where
  "isStatusCall (CreateAccount _ _) = True"
| "isStatusCall (CreateGovCloudAccount _ _) = True"
| "isStatusCall (DescribeCreateAccountStatus _) = True"
| "isStatusCall _ = False"

definition statusCall :: "AccountConfig \<Rightarrow> call" where
  "statusCall a =
     (if createRequestId a = Some [] \<or> createRequestId a = None
      then (if enableGovCloud a = JString ''true''
            then CreateGovCloudAccount (email a) (name a)
            else CreateAccount (email a) (name a))
      else DescribeCreateAccountStatus (the (createRequestId a)))"

text \<open>\<^verbatim>\<open>listRoots\<close> resolves and lists no root named \<open>Root\<close>.\<close>

definition rootMissing :: "Env \<Rightarrow> bool" where
  "rootMissing env =
     (case listRootsOutcome env of
        Rejects _ \<Rightarrow> False
      | Resolves roots \<Rightarrow> (case rootOrgOf roots of None \<Rightarrow> True | Some _ \<Rightarrow> False))"

text \<open>The put to the mapping table resolves, with whatever status.\<close>

definition mappingPutResolves :: "Env \<Rightarrow> bool" where
  "mappingPutResolves env = (case putMappingOutcome env of Rejects _ \<Rightarrow> False | Resolves _ \<Rightarrow> True)"

section \<open>Properties\<close>

subsection \<open>Unfolding and evaluation\<close>

lemmas io_defs = returnE_def throwE_def bindE_def remoteCall_def storeWrite_def logCall_def

lemmas fn_defs = getSingleAccountConfigFromTable_def deleteSingleAccountConfigFromTable_def
  createOrganizationAccount_def createGovCloudAccount_def getAccountCreationStatus_def
  updateAccountConfig_def moveAccountToOrgIdFromRoot_def saveGovCloudAccountMapping_def

lemmas handler_defs = handler_def succeeded_def fn_defs io_defs stateOf_def failureReasonOf_def
  truthy_def Let_def

lemmas example_defs = exampleConfig_def exampleEnv_def exampleWorld_def pendingWorld_def
  inProgressResponse_def succeededResponse_def waitingEnv_def exampleWorldWith_def
  govSucceededResponse_def govNoNameResponse_def govNoNameEnv_def moveRejectsEnv_def
  deleteRejectsEnv_def mappingRejectsEnv_def putRejectsEnv_def noRootEnv_def govNoRootEnv_def
  mappedWorld_def

lemma getSingle_eq:
  "getSingleAccountConfigFromTable env w =
     (case scanRejects env of
        Some msg \<Rightarrow> (Inl (Rejected msg), logCall Scan w)
      | None \<Rightarrow> (Inr (map snd (take 1 (newOrgAccountsTable w))), logCall Scan w))"
  by (cases "newOrgAccountsTable w")
     (simp_all add: getSingleAccountConfigFromTable_def io_defs split: option.splits)

lemma getSingle_selected:
  assumes "fst (getSingleAccountConfigFromTable env w) = Inr (a # as)"
  shows "scanRejects env = None" and "as = []"
    and "\<exists>k rest. newOrgAccountsTable w = (k, a) # rest"
    and "getSingleAccountConfigFromTable env w = (Inr [a], logCall Scan w)"
  using assms
  by (cases "newOrgAccountsTable w"; auto simp: getSingle_eq split: option.splits)+

lemma handler_exampleWorld:
  "handler exampleEnv exampleWorld =
     (Inr \<lparr>IsComplete = False\<rparr>,
      \<lparr>newOrgAccountsTable = [(''a@x.com'', exampleConfig\<lparr>createRequestId := Some ''req-1''\<rparr>)],
       govCloudAccountMappingTable = [],
       calls = [Scan, CreateAccount ''a@x.com'' ''a'',
                PutAccountConfig ''a@x.com'' (exampleConfig\<lparr>createRequestId := Some ''req-1''\<rparr>)]\<rparr>)"
  by (simp add: handler_defs example_defs)

lemma handler_pendingWorld:
  "handler exampleEnv pendingWorld =
     (Inr \<lparr>IsComplete = False\<rparr>,
      \<lparr>newOrgAccountsTable = [],
       govCloudAccountMappingTable = [],
       calls = [Scan, DescribeCreateAccountStatus ''req-1'', ListRoots,
                MoveAccount (Some ''111'') ''ou-1'' (Some ''r-1''), DeleteAccountConfig ''a@x.com'']\<rparr>)"
  by (simp add: handler_defs example_defs)

subsection \<open>Completion\<close>

lemma succeeded_not_complete:
  "fst (succeeded env a st w) \<noteq> Inr \<lparr>IsComplete = True\<rparr>"
  by (auto simp: succeeded_def fn_defs io_defs Let_def split: option.splits promise.splits)

text \<open>
  C5. The handler returns \<open>IsComplete = true\<close> exactly when the scan resolves with no
  row, that is when \<open>getSingleAccountConfigFromTable\<close> yields the empty array; when it
  yields a configuration, the invocation returns \<open>IsComplete = false\<close> or throws.
\<close>

theorem handler_complete_iff:
  "((fst (handler env w) = Inr \<lparr>IsComplete = True\<rparr>)
       = (fst (getSingleAccountConfigFromTable env w) = Inr []))
   \<and> (\<forall>a as. fst (getSingleAccountConfigFromTable env w) = Inr (a # as) \<longrightarrow>
         fst (handler env w) = Inr \<lparr>IsComplete = False\<rparr> \<or> (\<exists>e. fst (handler env w) = Inl e))"
proof -
  have iff: "(fst (handler env w) = Inr \<lparr>IsComplete = True\<rparr>)
       = (fst (getSingleAccountConfigFromTable env w) = Inr [])"
    using succeeded_not_complete
    apply (simp add: handler_def bindE_def[of "getSingleAccountConfigFromTable env"] getSingle_eq
             split: option.splits)
    apply (cases "newOrgAccountsTable w")
     apply (simp_all add: returnE_def)
    apply (auto simp: fn_defs io_defs split: promise.splits)
    done
  have "fst (handler env w) = Inr \<lparr>IsComplete = False\<rparr> \<or> (\<exists>e. fst (handler env w) = Inl e)"
    if "fst (getSingleAccountConfigFromTable env w) = Inr (a # as)" for a as
  proof (cases "fst (handler env w)")
    case (Inl e)
    then show ?thesis by simp
  next
    case (Inr r)
    have "r \<noteq> \<lparr>IsComplete = True\<rparr>" using iff that Inr by auto
    then have "r = \<lparr>IsComplete = False\<rparr>" by (cases r) auto
    then show ?thesis using Inr by simp
  qed
  then show ?thesis using iff by blast
qed

theorem handler_complete_iff_witness:
  "fst (getSingleAccountConfigFromTable exampleEnv exampleWorld) = Inr [exampleConfig]
   \<and> fst (handler exampleEnv exampleWorld) = Inr \<lparr>IsComplete = False\<rparr>
   \<and> fst (getSingleAccountConfigFromTable exampleEnv (exampleWorld\<lparr>newOrgAccountsTable := []\<rparr>))
       = Inr []
   \<and> fst (handler exampleEnv (exampleWorld\<lparr>newOrgAccountsTable := []\<rparr>))
       = Inr \<lparr>IsComplete = True\<rparr>"
  using handler_complete_iff[of exampleEnv exampleWorld]
    handler_complete_iff[of exampleEnv "exampleWorld\<lparr>newOrgAccountsTable := []\<rparr>"]
  by (simp add: getSingle_eq exampleEnv_def exampleWorld_def handler_exampleWorld[unfolded exampleEnv_def exampleWorld_def])

subsection \<open>The waiting branch\<close>

text \<open>
  C7. When the selected configuration has a non-empty request id and the status call
  resolves with state \<open>IN_PROGRESS\<close>, the handler returns \<open>IsComplete = false\<close>, both
  tables are as they were, and the only calls made are the scan and the status call: no
  write to either table.
\<close>

theorem waiting_branch_frame:
  assumes "fst (getSingleAccountConfigFromTable env w) = Inr (a # as)"
    and "createRequestId a = Some s" and "s \<noteq> []"
    and "describeCreateAccountStatusOutcome env s = Resolves resp"
    and "stateOf resp = Some ''IN_PROGRESS''"
  shows "fst (handler env w) = Inr \<lparr>IsComplete = False\<rparr>
       \<and> newOrgAccountsTable (snd (handler env w)) = newOrgAccountsTable w
       \<and> govCloudAccountMappingTable (snd (handler env w)) = govCloudAccountMappingTable w
       \<and> issued env w = [Scan, DescribeCreateAccountStatus s]
       \<and> filter isWrite (issued env w) = []"
  using assms(2-) getSingle_selected(4)[OF assms(1)]
  by (simp add: issued_def handler_def bindE_def getAccountCreationStatus_def remoteCall_def
        logCall_def returnE_def)

theorem waiting_branch_frame_witness:
  "fst (getSingleAccountConfigFromTable waitingEnv pendingWorld)
     = Inr [exampleConfig\<lparr>createRequestId := Some ''req-1''\<rparr>]
   \<and> describeCreateAccountStatusOutcome waitingEnv ''req-1'' = Resolves inProgressResponse
   \<and> stateOf inProgressResponse = Some ''IN_PROGRESS''
   \<and> fst (handler waitingEnv pendingWorld) = Inr \<lparr>IsComplete = False\<rparr>
   \<and> newOrgAccountsTable (snd (handler waitingEnv pendingWorld)) = newOrgAccountsTable pendingWorld
   \<and> govCloudAccountMappingTable (snd (handler waitingEnv pendingWorld))
       = govCloudAccountMappingTable pendingWorld
   \<and> issued waitingEnv pendingWorld = [Scan, DescribeCreateAccountStatus ''req-1'']
   \<and> filter isWrite (issued waitingEnv pendingWorld) = []"
proof -
  have g: "fst (getSingleAccountConfigFromTable waitingEnv pendingWorld)
             = Inr [exampleConfig\<lparr>createRequestId := Some ''req-1''\<rparr>]"
    by (simp add: getSingle_eq example_defs)
  have d: "describeCreateAccountStatusOutcome waitingEnv ''req-1'' = Resolves inProgressResponse"
    by (simp add: waitingEnv_def exampleEnv_def)
  have s: "stateOf inProgressResponse = Some ''IN_PROGRESS''"
    by (simp add: stateOf_def inProgressResponse_def)
  have r: "createRequestId (exampleConfig\<lparr>createRequestId := Some ''req-1''\<rparr>) = Some ''req-1''"
    by simp
  from waiting_branch_frame[OF g r _ d s] g d s show ?thesis by simp
qed

subsection \<open>Storing the request id\<close>

text \<open>
  C4. When the selected configuration has no request id and the Create call (of the
  variant chosen) resolves with state \<open>IN_PROGRESS\<close>, the handler puts the configuration
  with the returned request id under the configuration's email. If that put resolves with
  status 200 the handler returns \<open>IsComplete = false\<close> and the table holds the updated
  configuration under that email; otherwise the handler throws and the table is as it was.
\<close>

theorem in_progress_persists_request_id:
  assumes "fst (getSingleAccountConfigFromTable env w) = Inr (a # as)"
    and "createRequestId a = None \<or> createRequestId a = Some []"
    and "(if enableGovCloud a = JString ''true''
          then createGovCloudAccountOutcome env (email a) (name a)
          else createAccountOutcome env (email a) (name a)) = Resolves resp"
    and "stateOf resp = Some ''IN_PROGRESS''"
  shows "PutAccountConfig (email a) (a\<lparr>createRequestId := Id' (the (CreateAccountStatus resp))\<rparr>)
           \<in> set (issued env w)
       \<and> (putAccountConfigOutcome env = Resolves 200 \<longrightarrow>
            fst (handler env w) = Inr \<lparr>IsComplete = False\<rparr>
            \<and> newOrgAccountsTable (snd (handler env w))
                = AList.update (email a) (a\<lparr>createRequestId := Id' (the (CreateAccountStatus resp))\<rparr>)
                    (newOrgAccountsTable w)
            \<and> map_of (newOrgAccountsTable (snd (handler env w))) (email a)
                = Some (a\<lparr>createRequestId := Id' (the (CreateAccountStatus resp))\<rparr>))
       \<and> (putAccountConfigOutcome env \<noteq> Resolves 200 \<longrightarrow>
            (\<exists>e. fst (handler env w) = Inl e)
            \<and> newOrgAccountsTable (snd (handler env w)) = newOrgAccountsTable w)"
  using assms(2-) getSingle_selected(4)[OF assms(1)]
  by (cases "putAccountConfigOutcome env")
     (auto simp: issued_def handler_def bindE_def createGovCloudAccount_def
        createOrganizationAccount_def updateAccountConfig_def storeWrite_def throwE_def
        remoteCall_def logCall_def returnE_def update_conv' split: if_splits)

theorem in_progress_persists_request_id_witness:
  "fst (getSingleAccountConfigFromTable exampleEnv exampleWorld) = Inr [exampleConfig]
   \<and> createRequestId exampleConfig = None
   \<and> createAccountOutcome exampleEnv (email exampleConfig) (name exampleConfig)
       = Resolves inProgressResponse
   \<and> stateOf inProgressResponse = Some ''IN_PROGRESS''
   \<and> putAccountConfigOutcome exampleEnv = Resolves 200
   \<and> PutAccountConfig ''a@x.com'' (exampleConfig\<lparr>createRequestId := Some ''req-1''\<rparr>)
         \<in> set (issued exampleEnv exampleWorld)
   \<and> fst (handler exampleEnv exampleWorld) = Inr \<lparr>IsComplete = False\<rparr>
   \<and> map_of (newOrgAccountsTable (snd (handler exampleEnv exampleWorld))) ''a@x.com''
       = Some (exampleConfig\<lparr>createRequestId := Some ''req-1''\<rparr>)
   \<and> putAccountConfigOutcome (exampleEnv\<lparr>putAccountConfigOutcome := Resolves 500\<rparr>)
       \<noteq> Resolves 200
   \<and> (\<exists>e. fst (handler (exampleEnv\<lparr>putAccountConfigOutcome := Resolves 500\<rparr>) exampleWorld)
            = Inl e)"
proof -
  let ?bad = "exampleEnv\<lparr>putAccountConfigOutcome := Resolves 500\<rparr>"
  have g: "fst (getSingleAccountConfigFromTable exampleEnv exampleWorld) = Inr [exampleConfig]"
    "fst (getSingleAccountConfigFromTable ?bad exampleWorld) = Inr [exampleConfig]"
    by (simp_all add: getSingle_eq exampleEnv_def exampleWorld_def)
  have n: "createRequestId exampleConfig = None \<or> createRequestId exampleConfig = Some []"
    by (simp add: exampleConfig_def)
  have c: "(if enableGovCloud exampleConfig = JString ''true''
            then createGovCloudAccountOutcome exampleEnv (email exampleConfig) (name exampleConfig)
            else createAccountOutcome exampleEnv (email exampleConfig) (name exampleConfig))
           = Resolves inProgressResponse"
    "(if enableGovCloud exampleConfig = JString ''true''
            then createGovCloudAccountOutcome ?bad (email exampleConfig) (name exampleConfig)
            else createAccountOutcome ?bad (email exampleConfig) (name exampleConfig))
           = Resolves inProgressResponse"
    by (simp_all add: exampleEnv_def exampleConfig_def)
  have s: "stateOf inProgressResponse = Some ''IN_PROGRESS''"
    by (simp add: stateOf_def inProgressResponse_def)
  have i: "Id' (the (CreateAccountStatus inProgressResponse)) = Some ''req-1''"
    by (simp add: inProgressResponse_def)
  have e: "email exampleConfig = ''a@x.com''" by (simp add: exampleConfig_def)
  have p: "putAccountConfigOutcome exampleEnv = Resolves 200"
    "putAccountConfigOutcome ?bad \<noteq> Resolves 200"
    by (simp_all add: exampleEnv_def)
  have c': "createAccountOutcome exampleEnv (email exampleConfig) (name exampleConfig)
              = Resolves inProgressResponse"
    by (simp add: exampleEnv_def)
  have n': "createRequestId exampleConfig = None" by (simp add: exampleConfig_def)
  note ok = in_progress_persists_request_id[OF g(1) n c(1) s, unfolded i e]
  note bad = in_progress_persists_request_id[OF g(2) n c(2) s, unfolded i e]
  from ok bad p g(1) c' n' s show ?thesis by blast
qed

subsection \<open>At most one submission\<close>

lemma submitted_update:
  "submitted k t \<Longrightarrow> email v \<noteq> k \<or> truthy (createRequestId v) \<Longrightarrow>
     submitted k (AList.update k' v t)"
  by (induction t) (auto simp: submitted_def)

lemma submitted_delete: "submitted k t \<Longrightarrow> submitted k (AList.delete k' t)"
  by (induction t) (auto simp: submitted_def)

lemma succeeded_effect:
  "\<exists>cs. calls (snd (succeeded env a st w)) = calls w @ cs
       \<and> (\<forall>c\<in>set cs. \<forall>k. \<not> isCreateFor k c)
       \<and> (newOrgAccountsTable (snd (succeeded env a st w)) = newOrgAccountsTable w
          \<or> newOrgAccountsTable (snd (succeeded env a st w))
               = AList.delete (email a) (newOrgAccountsTable w))"
  by (auto simp: succeeded_def fn_defs io_defs Let_def
        split: option.splits promise.splits)

lemma handler_create_path:
  assumes sel: "fst (getSingleAccountConfigFromTable env w) = Inr (a # as)"
    and empty: "createRequestId a = Some [] \<or> createRequestId a = None"
  shows "\<exists>cs. calls (snd (handler env w))
              = calls w @ Scan # (if enableGovCloud a = JString ''true''
                                  then CreateGovCloudAccount (email a) (name a)
                                  else CreateAccount (email a) (name a)) # cs
           \<and> (\<forall>c\<in>set cs. \<forall>k. \<not> isCreateFor k c)
           \<and> (newOrgAccountsTable (snd (handler env w)) = newOrgAccountsTable w
              \<or> newOrgAccountsTable (snd (handler env w))
                   = AList.delete (email a) (newOrgAccountsTable w)
              \<or> (\<exists>x. newOrgAccountsTable (snd (handler env w))
                   = AList.update (email a) (a\<lparr>createRequestId := x\<rparr>) (newOrgAccountsTable w)))"
proof -
  define c where "c = (if enableGovCloud a = JString ''true''
                       then CreateGovCloudAccount (email a) (name a)
                       else CreateAccount (email a) (name a))"
  define outcome where "outcome = (if enableGovCloud a = JString ''true''
                       then createGovCloudAccountOutcome env (email a) (name a)
                       else createAccountOutcome env (email a) (name a))"
  define w2 where "w2 = logCall c (logCall Scan w)"
  have w2: "calls w2 = calls w @ [Scan, c]" "newOrgAccountsTable w2 = newOrgAccountsTable w"
    by (simp_all add: w2_def logCall_def)
  note scan = getSingle_selected(4)[OF sel]
  have "?thesis = (\<exists>cs. calls (snd (handler env w)) = calls w2 @ cs
           \<and> (\<forall>c\<in>set cs. \<forall>k. \<not> isCreateFor k c)
           \<and> (newOrgAccountsTable (snd (handler env w)) = newOrgAccountsTable w2
              \<or> newOrgAccountsTable (snd (handler env w))
                   = AList.delete (email a) (newOrgAccountsTable w2)
              \<or> (\<exists>x. newOrgAccountsTable (snd (handler env w))
                   = AList.update (email a) (a\<lparr>createRequestId := x\<rparr>) (newOrgAccountsTable w2))))"
    by (simp add: w2 c_def)
  moreover have "\<exists>cs. calls (snd (handler env w)) = calls w2 @ cs
           \<and> (\<forall>c\<in>set cs. \<forall>k. \<not> isCreateFor k c)
           \<and> (newOrgAccountsTable (snd (handler env w)) = newOrgAccountsTable w2
              \<or> newOrgAccountsTable (snd (handler env w))
                   = AList.delete (email a) (newOrgAccountsTable w2)
              \<or> (\<exists>x. newOrgAccountsTable (snd (handler env w))
                   = AList.update (email a) (a\<lparr>createRequestId := x\<rparr>) (newOrgAccountsTable w2)))"
  proof (cases outcome)
    case (Rejects msg)
    then have "snd (handler env w) = w2"
      using empty scan
      by (auto simp: handler_def bindE_def createGovCloudAccount_def createOrganizationAccount_def
            remoteCall_def outcome_def w2_def c_def split: if_splits)
    then show ?thesis by simp
  next
    case (Resolves resp)
    consider (inprogress) "stateOf resp = Some ''IN_PROGRESS''"
      | (succ) "stateOf resp \<noteq> Some ''IN_PROGRESS''" "stateOf resp = Some ''SUCCEEDED''"
      | (other) "stateOf resp \<noteq> Some ''IN_PROGRESS''" "stateOf resp \<noteq> Some ''SUCCEEDED''"
      by blast
    then show ?thesis
    proof cases
      case inprogress
      have "handler env w =
             bindE (updateAccountConfig env (a\<lparr>createRequestId := Id' (the (CreateAccountStatus resp))\<rparr>))
               (\<lambda>r. if \<not> r then throwE UpdateRecordFailed else returnE \<lparr>IsComplete = False\<rparr>) w2"
        using empty scan Resolves inprogress
        by (auto simp: handler_def bindE_def createGovCloudAccount_def createOrganizationAccount_def
            remoteCall_def outcome_def w2_def c_def split: if_splits)
      then show ?thesis
        by (auto simp: updateAccountConfig_def io_defs split: promise.splits)
    next
      case succ
      have "handler env w = succeeded env a (the (CreateAccountStatus resp)) w2"
        using empty scan Resolves succ
        by (auto simp: handler_def bindE_def createGovCloudAccount_def createOrganizationAccount_def
            remoteCall_def outcome_def w2_def c_def split: if_splits)
      then show ?thesis
        using succeeded_effect[of env a "the (CreateAccountStatus resp)" w2] by auto
    next
      case other
      have "snd (handler env w) = w2"
        using empty scan Resolves other
        by (auto simp: handler_def bindE_def createGovCloudAccount_def createOrganizationAccount_def
            remoteCall_def outcome_def w2_def c_def throwE_def split: if_splits)
      then show ?thesis by simp
    qed
  qed
  ultimately show ?thesis by blast
qed

lemma handler_status_path:
  assumes sel: "fst (getSingleAccountConfigFromTable env w) = Inr (a # as)"
    and s: "createRequestId a = Some s" "s \<noteq> []"
  shows "\<exists>cs. calls (snd (handler env w)) = calls w @ Scan # DescribeCreateAccountStatus s # cs
           \<and> (\<forall>c\<in>set cs. \<forall>k. \<not> isCreateFor k c)
           \<and> (newOrgAccountsTable (snd (handler env w)) = newOrgAccountsTable w
              \<or> newOrgAccountsTable (snd (handler env w))
                   = AList.delete (email a) (newOrgAccountsTable w))"
proof -
  define w2 where "w2 = logCall (DescribeCreateAccountStatus s) (logCall Scan w)"
  have w2: "calls w2 = calls w @ [Scan, DescribeCreateAccountStatus s]"
    "newOrgAccountsTable w2 = newOrgAccountsTable w"
    by (simp_all add: w2_def logCall_def)
  have "snd (handler env w) = w2 \<or> (\<exists>st. handler env w = succeeded env a st w2)"
    using s getSingle_selected(4)[OF sel]
    by (auto simp: handler_def bindE_def getAccountCreationStatus_def
            remoteCall_def w2_def throwE_def returnE_def split: promise.splits)
  then show ?thesis
  proof
    assume "snd (handler env w) = w2"
    then show ?thesis using w2 by simp
  next
    assume "\<exists>st. handler env w = succeeded env a st w2"
    then obtain st where "handler env w = succeeded env a st w2" ..
    then show ?thesis
      using succeeded_effect[of env a st w2] w2 by auto
  qed
qed

lemma handler_step_selected:
  assumes "\<And>a as. fst (getSingleAccountConfigFromTable env w) = Inr (a # as) \<Longrightarrow>
             email a \<noteq> k \<or> truthy (createRequestId a)"
  shows "(submitted k (newOrgAccountsTable w) \<longrightarrow>
            submitted k (newOrgAccountsTable (snd (handler env w))))
       \<and> (\<exists>cs. calls (snd (handler env w)) = calls w @ cs \<and> (\<forall>c\<in>set cs. \<not> isCreateFor k c))"
proof (cases "fst (getSingleAccountConfigFromTable env w)")
  case (Inl e)
  then show ?thesis
    by (auto simp: handler_def bindE_def getSingle_eq logCall_def split: option.splits)
next
  case (Inr accountToAdd)
  show ?thesis
  proof (cases accountToAdd)
    case Nil
    then show ?thesis using Inr
      by (auto simp: handler_def bindE_def getSingle_eq logCall_def returnE_def split: option.splits)
  next
    case (Cons a as)
    note sel = Inr[unfolded Cons]
    have ak: "email a \<noteq> k \<or> truthy (createRequestId a)"
      using assms sel by blast
    show ?thesis
    proof (cases "createRequestId a = Some [] \<or> createRequestId a = None")
      case True
      then have nk: "email a \<noteq> k" using ak by (auto simp: truthy_def)
      from handler_create_path[OF sel True] nk show ?thesis
        by (auto simp: submitted_update submitted_delete)
    next
      case False
      then obtain s where s: "createRequestId a = Some s" "s \<noteq> []" by auto
      from handler_status_path[OF sel s] show ?thesis
        by (auto simp: submitted_delete)
    qed
  qed
qed

lemma handler_step:
  assumes "submitted k (newOrgAccountsTable w)"
  shows "submitted k (newOrgAccountsTable (snd (handler env w)))
       \<and> (\<exists>cs. calls (snd (handler env w)) = calls w @ cs \<and> (\<forall>c\<in>set cs. \<not> isCreateFor k c))"
proof -
  have ak: "email a \<noteq> k \<or> truthy (createRequestId a)"
    if "fst (getSingleAccountConfigFromTable env w) = Inr (a # as)" for a as
    using getSingle_selected(3)[OF that] assms by (auto simp: submitted_def)
  have "(submitted k (newOrgAccountsTable w) \<longrightarrow>
            submitted k (newOrgAccountsTable (snd (handler env w))))
       \<and> (\<exists>cs. calls (snd (handler env w)) = calls w @ cs \<and> (\<forall>c\<in>set cs. \<not> isCreateFor k c))"
    by (rule handler_step_selected) (rule ak)
  then show ?thesis using assms by blast
qed

lemma handler_creates:
  assumes "c \<in> set (issued env w)" and "isCreateFor k c"
  shows "\<exists>a as. fst (getSingleAccountConfigFromTable env w) = Inr (a # as) \<and> email a = k
           \<and> (createRequestId a = None \<or> createRequestId a = Some [])"
proof (rule ccontr)
  assume neg: "\<not> ?thesis"
  have ak: "email a \<noteq> k \<or> truthy (createRequestId a)"
    if "fst (getSingleAccountConfigFromTable env w) = Inr (a # as)" for a as
    using neg that by (cases "createRequestId a") (auto simp: truthy_def)
  have "(submitted k (newOrgAccountsTable w) \<longrightarrow>
            submitted k (newOrgAccountsTable (snd (handler env w))))
       \<and> (\<exists>cs. calls (snd (handler env w)) = calls w @ cs \<and> (\<forall>c\<in>set cs. \<not> isCreateFor k c))"
    by (rule handler_step_selected) (rule ak)
  then obtain cs where "calls (snd (handler env w)) = calls w @ cs" "\<forall>c\<in>set cs. \<not> isCreateFor k c"
    by blast
  then show False using assms by (simp add: issued_def)
qed

lemma invocations_submitted:
  "submitted k (newOrgAccountsTable w) \<Longrightarrow>
     \<exists>cs. calls (invocations envs w) = calls w @ cs \<and> (\<forall>c\<in>set cs. \<not> isCreateFor k c)"
proof (induction envs arbitrary: w)
  case Nil
  then show ?case by simp
next
  case (Cons env envs)
  from handler_step[OF Cons.prems, of env]
  obtain cs where s: "submitted k (newOrgAccountsTable (snd (handler env w)))"
    and cs: "calls (snd (handler env w)) = calls w @ cs" "\<forall>c\<in>set cs. \<not> isCreateFor k c"
    by blast
  from Cons.IH[OF s] obtain ds where
    ds: "calls (invocations envs (snd (handler env w))) = calls (snd (handler env w)) @ ds"
      "\<forall>c\<in>set ds. \<not> isCreateFor k c" by blast
  have "calls (invocations (env # envs) w) = calls w @ (cs @ ds)"
    using cs(1) ds(1) by simp
  moreover have "\<forall>c\<in>set (cs @ ds). \<not> isCreateFor k c" using cs(2) ds(2) by auto
  ultimately show ?case by blast
qed

text \<open>
  C1. Once every stored configuration for an email carries a non-empty request id, no
  later invocation calls \<open>createAccount\<close> or \<open>createGovCloudAccount\<close> for that email,
  whatever the services answer; and within one invocation a Create call for an email is
  made only when the selected configuration has that email and its \<open>createRequestId\<close>
  is undefined or the empty string.
\<close>

theorem at_most_once_submission:
  "(submitted k (newOrgAccountsTable w) \<longrightarrow> (\<forall>c \<in> set (issuedBy envs w). \<not> isCreateFor k c))
   \<and> (\<forall>c \<in> set (issued env w). isCreateFor k c \<longrightarrow>
         (\<exists>a as. fst (getSingleAccountConfigFromTable env w) = Inr (a # as) \<and> email a = k
            \<and> (createRequestId a = None \<or> createRequestId a = Some [])))"
proof -
  have "\<forall>c \<in> set (issuedBy envs w). \<not> isCreateFor k c" if "submitted k (newOrgAccountsTable w)"
    using invocations_submitted[OF that, of envs] by (auto simp: issuedBy_def)
  then show ?thesis using handler_creates[of _ env w k] by blast
qed

theorem at_most_once_submission_witness:
  "submitted ''a@x.com'' (newOrgAccountsTable pendingWorld)
   \<and> filter (isCreateFor ''a@x.com'') (issuedBy [exampleEnv, exampleEnv] pendingWorld) = []
   \<and> CreateAccount ''a@x.com'' ''a'' \<in> set (issued exampleEnv exampleWorld)
   \<and> fst (getSingleAccountConfigFromTable exampleEnv exampleWorld) = Inr [exampleConfig]
   \<and> createRequestId exampleConfig = None"
proof -
  have s: "submitted ''a@x.com'' (newOrgAccountsTable pendingWorld)"
    by (simp add: submitted_def pendingWorld_def exampleConfig_def truthy_def)
  have c: "CreateAccount ''a@x.com'' ''a'' \<in> set (issued exampleEnv exampleWorld)"
    by (simp add: issued_def handler_exampleWorld) (simp add: exampleWorld_def)
  have g: "fst (getSingleAccountConfigFromTable exampleEnv exampleWorld) = Inr [exampleConfig]"
    by (simp add: getSingle_eq exampleEnv_def exampleWorld_def)
  from at_most_once_submission[where k="''a@x.com''" and w=pendingWorld
        and envs="[exampleEnv, exampleEnv]" and env=exampleEnv]
       at_most_once_submission[where k="''a@x.com''" and w=exampleWorld
        and envs="[]" and env=exampleEnv] s c g
  show ?thesis by (simp add: filter_empty_conv exampleConfig_def)
qed

subsection \<open>The choice of the Create call\<close>

text \<open>
  C9. When the selected configuration has no request id, the handler calls
  \<open>createGovCloudAccount\<close> exactly when \<open>enableGovCloud\<close> is the string \<open>true\<close>, and
  \<open>createAccount\<close> for every other value (the boolean true, other spellings, the absent
  field); the call made carries the configuration's email and name.
\<close>

theorem variant_selection:
  assumes "fst (getSingleAccountConfigFromTable env w) = Inr (a # as)"
    and "createRequestId a = Some [] \<or> createRequestId a = None"
  shows "((\<exists>accountEmail accountName.
             CreateGovCloudAccount accountEmail accountName \<in> set (issued env w))
            = (enableGovCloud a = JString ''true''))
       \<and> ((\<exists>accountEmail accountName.
             CreateAccount accountEmail accountName \<in> set (issued env w))
            = (enableGovCloud a \<noteq> JString ''true''))
       \<and> (if enableGovCloud a = JString ''true''
           then CreateGovCloudAccount (email a) (name a)
           else CreateAccount (email a) (name a)) \<in> set (issued env w)"
proof -
  from handler_create_path[OF assms] obtain cs where
    cs: "issued env w = Scan # (if enableGovCloud a = JString ''true''
                                  then CreateGovCloudAccount (email a) (name a)
                                  else CreateAccount (email a) (name a)) # cs"
      "\<forall>c\<in>set cs. \<forall>k. \<not> isCreateFor k c"
    by (auto simp: issued_def)
  have "CreateGovCloudAccount e n \<notin> set cs" "CreateAccount e n \<notin> set cs" for e n
    using cs(2) isCreateFor.simps(1,2) by blast+
  then show ?thesis using cs(1) by auto
qed

theorem variant_selection_witness:
  "fst (getSingleAccountConfigFromTable exampleEnv (exampleWorldWith (JBool True)))
     = Inr [exampleConfig\<lparr>enableGovCloud := JBool True\<rparr>]
   \<and> createRequestId (exampleConfig\<lparr>enableGovCloud := JBool True\<rparr>) = None
   \<and> CreateAccount ''a@x.com'' ''a'' \<in> set (issued exampleEnv (exampleWorldWith (JBool True)))
   \<and> CreateAccount ''a@x.com'' ''a'' \<in> set (issued exampleEnv (exampleWorldWith (JString ''True'')))
   \<and> CreateAccount ''a@x.com'' ''a'' \<in> set (issued exampleEnv (exampleWorldWith (JString ''TRUE'')))
   \<and> CreateAccount ''a@x.com'' ''a'' \<in> set (issued exampleEnv (exampleWorldWith JUndefined))
   \<and> CreateGovCloudAccount ''a@x.com'' ''a''
         \<in> set (issued exampleEnv (exampleWorldWith (JString ''true'')))"
proof -
  have g: "fst (getSingleAccountConfigFromTable exampleEnv (exampleWorldWith v))
             = Inr [exampleConfig\<lparr>enableGovCloud := v\<rparr>]" for v
    by (simp add: getSingle_eq exampleEnv_def exampleWorldWith_def)
  have n: "createRequestId (exampleConfig\<lparr>enableGovCloud := v\<rparr>) = Some []
             \<or> createRequestId (exampleConfig\<lparr>enableGovCloud := v\<rparr>) = None" for v
    by (simp add: exampleConfig_def)
  have e: "email (exampleConfig\<lparr>enableGovCloud := v\<rparr>) = ''a@x.com''"
    "name (exampleConfig\<lparr>enableGovCloud := v\<rparr>) = ''a''" for v
    by (simp_all add: exampleConfig_def)
  from variant_selection[OF g n, of "JBool True"] variant_selection[OF g n, of "JString ''True''"]
    variant_selection[OF g n, of "JString ''TRUE''"] variant_selection[OF g n, of JUndefined]
    variant_selection[OF g n, of "JString ''true''"] g[of "JBool True"]
  show ?thesis by (simp add: e exampleConfig_def)
qed

subsection \<open>Failures of the writes and of the placement\<close>


lemma handler_succeeded:
  assumes sel: "fst (getSingleAccountConfigFromTable env w) = Inr (a # as)"
    and "statusOutcome env a = Resolves resp"
    and "stateOf resp = Some ''SUCCEEDED''"
    and "CreateAccountStatus resp = Some st"
  shows "handler env w = succeeded env a st (logCall (statusCall a) (logCall Scan w))"
  using assms(2-) getSingle_selected(4)[OF sel]
  by (auto simp: statusOutcome_def statusCall_def handler_def bindE_def createGovCloudAccount_def
        createOrganizationAccount_def getAccountCreationStatus_def remoteCall_def
        split: if_splits)

lemma handler_cases:
  "(\<exists>msg. handler env w = (Inl (Rejected msg), logCall Scan w))
   \<or> handler env w = (Inr \<lparr>IsComplete = True\<rparr>, logCall Scan w)
   \<or> (\<exists>a as c. fst (getSingleAccountConfigFromTable env w) = Inr (a # as) \<and> isStatusCall c
         \<and> ((\<exists>e. handler env w = (Inl e, logCall c (logCall Scan w)))
            \<or> handler env w = (Inr \<lparr>IsComplete = False\<rparr>, logCall c (logCall Scan w))
            \<or> (\<exists>st. handler env w = succeeded env a st (logCall c (logCall Scan w)))
            \<or> (\<exists>x. handler env w =
                   bindE (updateAccountConfig env (a\<lparr>createRequestId := x\<rparr>))
                     (\<lambda>r. if \<not> r then throwE UpdateRecordFailed
                          else returnE \<lparr>IsComplete = False\<rparr>)
                     (logCall c (logCall Scan w)))))"
proof (cases "fst (getSingleAccountConfigFromTable env w)")
  case (Inl e)
  then show ?thesis
    by (auto simp: handler_def bindE_def getSingle_eq split: option.splits)
next
  case (Inr accountToAdd)
  show ?thesis
  proof (cases accountToAdd)
    case Nil
    then show ?thesis using Inr
      by (auto simp: handler_def bindE_def getSingle_eq returnE_def split: option.splits)
  next
    case (Cons a as)
    note sel = Inr[unfolded Cons]
    note scan = getSingle_selected(4)[OF sel]
    have "\<exists>c. isStatusCall c
         \<and> ((\<exists>e. handler env w = (Inl e, logCall c (logCall Scan w)))
            \<or> handler env w = (Inr \<lparr>IsComplete = False\<rparr>, logCall c (logCall Scan w))
            \<or> (\<exists>st. handler env w = succeeded env a st (logCall c (logCall Scan w)))
            \<or> (\<exists>x. handler env w =
                   bindE (updateAccountConfig env (a\<lparr>createRequestId := x\<rparr>))
                     (\<lambda>r. if \<not> r then throwE UpdateRecordFailed
                          else returnE \<lparr>IsComplete = False\<rparr>)
                     (logCall c (logCall Scan w))))"
    proof (cases "createRequestId a = Some [] \<or> createRequestId a = None")
      case True
      show ?thesis
      proof (cases "enableGovCloud a = JString ''true''")
        case gov: True
        have "isStatusCall (CreateGovCloudAccount (email a) (name a))" by simp
        moreover have "(\<exists>e. handler env w = (Inl e, logCall (CreateGovCloudAccount (email a) (name a)) (logCall Scan w)))
            \<or> (\<exists>st. handler env w = succeeded env a st (logCall (CreateGovCloudAccount (email a) (name a)) (logCall Scan w)))
            \<or> (\<exists>x. handler env w =
                   bindE (updateAccountConfig env (a\<lparr>createRequestId := x\<rparr>))
                     (\<lambda>r. if \<not> r then throwE UpdateRecordFailed
                          else returnE \<lparr>IsComplete = False\<rparr>)
                     (logCall (CreateGovCloudAccount (email a) (name a)) (logCall Scan w)))"
          using True gov scan
          by (cases "createGovCloudAccountOutcome env (email a) (name a)")
             (auto simp: handler_def bindE_def createGovCloudAccount_def remoteCall_def throwE_def)
        ultimately show ?thesis by blast
      next
        case std: False
        have "isStatusCall (CreateAccount (email a) (name a))" by simp
        moreover have "(\<exists>e. handler env w = (Inl e, logCall (CreateAccount (email a) (name a)) (logCall Scan w)))
            \<or> (\<exists>st. handler env w = succeeded env a st (logCall (CreateAccount (email a) (name a)) (logCall Scan w)))
            \<or> (\<exists>x. handler env w =
                   bindE (updateAccountConfig env (a\<lparr>createRequestId := x\<rparr>))
                     (\<lambda>r. if \<not> r then throwE UpdateRecordFailed
                          else returnE \<lparr>IsComplete = False\<rparr>)
                     (logCall (CreateAccount (email a) (name a)) (logCall Scan w)))"
          using True std scan
          by (cases "createAccountOutcome env (email a) (name a)")
             (auto simp: handler_def bindE_def createOrganizationAccount_def remoteCall_def throwE_def)
        ultimately show ?thesis by blast
      qed
    next
      case False
      then obtain s where s: "createRequestId a = Some s" "s \<noteq> []" by auto
      have "isStatusCall (DescribeCreateAccountStatus s)" by simp
      moreover have "(\<exists>e. handler env w = (Inl e, logCall (DescribeCreateAccountStatus s) (logCall Scan w)))
            \<or> handler env w = (Inr \<lparr>IsComplete = False\<rparr>, logCall (DescribeCreateAccountStatus s) (logCall Scan w))
            \<or> (\<exists>st. handler env w = succeeded env a st (logCall (DescribeCreateAccountStatus s) (logCall Scan w)))"
        using s scan
        by (cases "describeCreateAccountStatusOutcome env s")
           (auto simp: handler_def bindE_def getAccountCreationStatus_def remoteCall_def
              throwE_def returnE_def)
      ultimately show ?thesis by blast
    qed
    then show ?thesis using sel by blast
  qed
qed

lemma statusCall_props: "isStatusCall c \<Longrightarrow> confirmed env c \<and> \<not> isDelete c"
  by (cases c) simp_all

lemma succeeded_confirmed:
  assumes "resolvesOk (putMappingOutcome env)" and "resolvesOk (deleteOutcome env)"
    and "fst (succeeded env a st w) = Inr r"
  shows "\<exists>cs. calls (snd (succeeded env a st w)) = calls w @ cs \<and> (\<forall>c\<in>set cs. confirmed env c)"
  using assms
  by (auto simp: succeeded_def fn_defs io_defs Let_def split: option.splits promise.splits if_splits)

lemma update_confirmed:
  assumes "fst (bindE (updateAccountConfig env a')
                  (\<lambda>r. if \<not> r then throwE UpdateRecordFailed
                       else returnE \<lparr>IsComplete = False\<rparr>) w) = Inr r"
  shows "\<exists>cs. calls (snd (bindE (updateAccountConfig env a')
                  (\<lambda>r. if \<not> r then throwE UpdateRecordFailed
                       else returnE \<lparr>IsComplete = False\<rparr>) w)) = calls w @ cs
            \<and> (\<forall>c\<in>set cs. confirmed env c)"
  using assms
  by (auto simp: updateAccountConfig_def io_defs split: promise.splits if_splits)

lemma handler_confirmed:
  assumes "resolvesOk (putMappingOutcome env)" and "resolvesOk (deleteOutcome env)"
    and ok: "fst (handler env w) = Inr r"
  shows "\<forall>c\<in>set (issued env w). confirmed env c"
proof -
  have base: "calls (logCall c (logCall Scan w)) = calls w @ [Scan, c]" for c
    by (simp add: logCall_def)
  from handler_cases[of env w] show ?thesis
  proof (elim disjE exE conjE)
    fix msg assume "handler env w = (Inl (Rejected msg), logCall Scan w)"
    then show ?thesis using ok by simp
  next
    assume "handler env w = (Inr \<lparr>IsComplete = True\<rparr>, logCall Scan w)"
    then show ?thesis by (simp add: issued_def logCall_def)
  next
    fix a as c e assume "handler env w = (Inl e, logCall c (logCall Scan w))"
    then show ?thesis using ok by simp
  next
    fix a as c
    assume "isStatusCall c" "handler env w = (Inr \<lparr>IsComplete = False\<rparr>, logCall c (logCall Scan w))"
    then show ?thesis using statusCall_props[of c env] by (simp add: issued_def base)
  next
    fix a as c st
    assume c: "isStatusCall c" and h: "handler env w = succeeded env a st (logCall c (logCall Scan w))"
    from succeeded_confirmed[OF assms(1,2), of a st "logCall c (logCall Scan w)" r] ok h
    obtain cs where "calls (snd (handler env w)) = calls w @ [Scan, c] @ cs" "\<forall>c\<in>set cs. confirmed env c"
      by (auto simp: base)
    then show ?thesis using statusCall_props[OF c, of env] by (simp add: issued_def)
  next
    fix a as c x
    assume c: "isStatusCall c" and h: "handler env w =
                   bindE (updateAccountConfig env (a\<lparr>createRequestId := x\<rparr>))
                     (\<lambda>r. if \<not> r then throwE UpdateRecordFailed
                          else returnE \<lparr>IsComplete = False\<rparr>)
                     (logCall c (logCall Scan w))"
    from update_confirmed[of env "a\<lparr>createRequestId := x\<rparr>" "logCall c (logCall Scan w)" r] ok h
    obtain cs where "calls (snd (handler env w)) = calls w @ [Scan, c] @ cs" "\<forall>c\<in>set cs. confirmed env c"
      by (auto simp: base)
    then show ?thesis using statusCall_props[OF c, of env] by (simp add: issued_def)
  qed
qed

lemma handler_deleteRejects:
  "handler deleteRejectsEnv pendingWorld =
     (Inl (Rejected ''InternalServerError''),
      pendingWorld\<lparr>calls := [Scan, DescribeCreateAccountStatus ''req-1'', ListRoots,
          MoveAccount (Some ''111'') ''ou-1'' (Some ''r-1''), DeleteAccountConfig ''a@x.com'']\<rparr>)"
  by (simp add: handler_defs example_defs)

lemma handler_mappingRejects:
  "handler mappingRejectsEnv pendingWorld =
     (Inl (Rejected ''InternalServerError''),
      pendingWorld\<lparr>calls := [Scan, DescribeCreateAccountStatus ''req-1'',
          PutGovCloudMapping (Some ''111'') ''222'' (Some ''a'')]\<rparr>)"
  by (simp add: handler_defs example_defs)

lemma handler_putRejects:
  "handler putRejectsEnv exampleWorld =
     (Inl (Rejected ''InternalServerError''),
      exampleWorld\<lparr>calls := [Scan, CreateAccount ''a@x.com'' ''a'',
          PutAccountConfig ''a@x.com'' (exampleConfig\<lparr>createRequestId := Some ''req-1''\<rparr>)]\<rparr>)"
  by (simp add: handler_defs example_defs)

text \<open>
  C3. The writes keep to the SDK's contract: a put to the mapping table or a delete that
  resolves carries status 200, an HTTP error being delivered as a rejection. Then whenever
  a write issued by the invocation (the put of the request id, the put of the mapping, the
  delete of the configuration) does not confirm success, the handler ends in an error: no
  invocation returns a result after an unconfirmed write.
\<close>

theorem store_write_failure_fatal:
  assumes "resolvesOk (putMappingOutcome env)" and "resolvesOk (deleteOutcome env)"
    and "c \<in> set (issued env w)" and "\<not> confirmed env c"
  shows "\<exists>e. fst (handler env w) = Inl e"
proof (cases "fst (handler env w)")
  case (Inl e)
  then show ?thesis by blast
next
  case (Inr r)
  from handler_confirmed[OF assms(1,2) Inr] assms(3,4) show ?thesis by blast
qed

theorem store_write_failure_fatal_witness:
  "resolvesOk (putMappingOutcome deleteRejectsEnv) \<and> resolvesOk (deleteOutcome deleteRejectsEnv)
   \<and> DeleteAccountConfig ''a@x.com'' \<in> set (issued deleteRejectsEnv pendingWorld)
   \<and> deleteOutcome deleteRejectsEnv = Rejects ''InternalServerError''
   \<and> (\<exists>e. fst (handler deleteRejectsEnv pendingWorld) = Inl e)
   \<and> PutGovCloudMapping (Some ''111'') ''222'' (Some ''a'')
         \<in> set (issued mappingRejectsEnv pendingWorld)
   \<and> putMappingOutcome mappingRejectsEnv = Rejects ''InternalServerError''
   \<and> (\<exists>e. fst (handler mappingRejectsEnv pendingWorld) = Inl e)
   \<and> PutAccountConfig ''a@x.com'' (exampleConfig\<lparr>createRequestId := Some ''req-1''\<rparr>)
         \<in> set (issued putRejectsEnv exampleWorld)
   \<and> putAccountConfigOutcome putRejectsEnv = Rejects ''InternalServerError''
   \<and> (\<exists>e. fst (handler putRejectsEnv exampleWorld) = Inl e)"
proof -
  have o: "resolvesOk (putMappingOutcome deleteRejectsEnv)" "resolvesOk (deleteOutcome deleteRejectsEnv)"
    "resolvesOk (putMappingOutcome mappingRejectsEnv)" "resolvesOk (deleteOutcome mappingRejectsEnv)"
    "resolvesOk (putMappingOutcome putRejectsEnv)" "resolvesOk (deleteOutcome putRejectsEnv)"
    by (simp_all add: deleteRejectsEnv_def mappingRejectsEnv_def putRejectsEnv_def exampleEnv_def)
  have r: "deleteOutcome deleteRejectsEnv = Rejects ''InternalServerError''"
    "putMappingOutcome mappingRejectsEnv = Rejects ''InternalServerError''"
    "putAccountConfigOutcome putRejectsEnv = Rejects ''InternalServerError''"
    by (simp_all add: deleteRejectsEnv_def mappingRejectsEnv_def putRejectsEnv_def exampleEnv_def)
  have i: "DeleteAccountConfig ''a@x.com'' \<in> set (issued deleteRejectsEnv pendingWorld)"
    "PutGovCloudMapping (Some ''111'') ''222'' (Some ''a'') \<in> set (issued mappingRejectsEnv pendingWorld)"
    "PutAccountConfig ''a@x.com'' (exampleConfig\<lparr>createRequestId := Some ''req-1''\<rparr>)
         \<in> set (issued putRejectsEnv exampleWorld)"
    by (simp_all add: issued_def handler_deleteRejects handler_mappingRejects handler_putRejects)
       (simp_all add: pendingWorld_def exampleWorld_def)
  have n: "\<not> confirmed deleteRejectsEnv (DeleteAccountConfig ''a@x.com'')"
    "\<not> confirmed mappingRejectsEnv (PutGovCloudMapping (Some ''111'') ''222'' (Some ''a''))"
    "\<not> confirmed putRejectsEnv
         (PutAccountConfig ''a@x.com'' (exampleConfig\<lparr>createRequestId := Some ''req-1''\<rparr>))"
    by (simp_all add: r)
  from store_write_failure_fatal[OF o(1,2) i(1) n(1)] store_write_failure_fatal[OF o(3,4) i(2) n(2)]
    store_write_failure_fatal[OF o(5,6) i(3) n(3)] o(1,2) r i
  show ?thesis by blast
qed





subsection \<open>The mapping write\<close>

lemma filter_key_absent:
  "k \<notin> fst ` set t \<Longrightarrow> filter (\<lambda>row. fst row = k) t = []"
  by (induction t) auto

lemma update_one_row:
  "distinct (map fst t) \<Longrightarrow> length (filter (\<lambda>row. fst row = k) (AList.update k v t)) = 1"
  by (induction t) (auto simp: filter_key_absent)

text \<open>
  C8. \<open>saveGovCloudAccountMapping\<close> is an unconditional put under the commercial account
  id: saving the same mapping twice leaves the mapping table as saving it once does. When
  the put resolves with status 200, the table then maps the id to the values written, a
  second save with other values leaves what saving those alone would leave, and a table
  with one row per key holds exactly one row for the id.
\<close>

theorem mapping_write_idempotent:
  "govCloudAccountMappingTable
     (snd (saveGovCloudAccountMapping env k g n (snd (saveGovCloudAccountMapping env k g n w))))
     = govCloudAccountMappingTable (snd (saveGovCloudAccountMapping env k g n w))
   \<and> (putMappingOutcome env = Resolves 200 \<longrightarrow>
        map_of (govCloudAccountMappingTable (snd (saveGovCloudAccountMapping env (Some c) g n w))) c
          = Some (g, n)
        \<and> govCloudAccountMappingTable
            (snd (saveGovCloudAccountMapping env (Some c) g' n'
                   (snd (saveGovCloudAccountMapping env (Some c) g n w))))
          = govCloudAccountMappingTable (snd (saveGovCloudAccountMapping env (Some c) g' n' w))
        \<and> (distinct (map fst (govCloudAccountMappingTable w)) \<longrightarrow>
             length (filter (\<lambda>row. fst row = c)
               (govCloudAccountMappingTable
                 (snd (saveGovCloudAccountMapping env (Some c) g n
                        (snd (saveGovCloudAccountMapping env (Some c) g n w)))))) = 1))"
  by (cases "putMappingOutcome env"; cases k)
     (auto simp: saveGovCloudAccountMapping_def io_defs update_conv' update_one_row)

theorem mapping_write_idempotent_witness:
  "putMappingOutcome exampleEnv = Resolves 200
   \<and> distinct (map fst (govCloudAccountMappingTable mappedWorld))
   \<and> map_of (govCloudAccountMappingTable
         (snd (saveGovCloudAccountMapping exampleEnv (Some ''111'') ''222'' (Some ''a'') mappedWorld)))
         ''111''
       = Some (''222'', Some ''a'')
   \<and> length (filter (\<lambda>row. fst row = ''111'')
         (govCloudAccountMappingTable
           (snd (saveGovCloudAccountMapping exampleEnv (Some ''111'') ''222'' (Some ''a'')
                  (snd (saveGovCloudAccountMapping exampleEnv (Some ''111'') ''222'' (Some ''a'')
                         mappedWorld))))))
       = 1"
proof -
  have p: "putMappingOutcome exampleEnv = Resolves 200" by (simp add: exampleEnv_def)
  have d: "distinct (map fst (govCloudAccountMappingTable mappedWorld))"
    by (simp add: mappedWorld_def)
  from mapping_write_idempotent[of exampleEnv _ "''222''" "Some ''a''" mappedWorld "''111''"] p d
  show ?thesis by blast
qed

subsection \<open>Dereferences after success\<close>

lemma succeeded_outcomes:
  "dereferenceFailed (fst (succeeded env a st w))
     = ((truthy (GovCloudAccountId st) \<longrightarrow> mappingPutResolves env) \<and> rootMissing env)
   \<and> (dereferenceFailed (fst (succeeded env a st w))
      \<or> callRejected (fst (succeeded env a st w))
      \<or> fst (succeeded env a st w) = Inr \<lparr>IsComplete = False\<rparr>)"
  by (auto simp: succeeded_def fn_defs io_defs Let_def rootMissing_def rootOrgOf_def
        mappingPutResolves_def split: option.splits promise.splits)

text \<open>
  C10, as the code has it. The non-null assertions are erased: an absent \<open>AccountId\<close>,
  \<open>AccountName\<close> or root id is handed to the SDK call as undefined and raises nothing in
  the handler. When the state switched on is \<open>SUCCEEDED\<close>, the one dereference that fails
  is the read of \<open>Id\<close> on the root found by name: the handler ends in a \<open>TypeError\<close>
  exactly when (the mapping put, if made, having resolved) \<^verbatim>\<open>listRoots\<close> resolves
  without a root named \<open>Root\<close>; otherwise it ends in the rejection of a call or returns
  \<open>IsComplete = false\<close>.
\<close>

theorem root_dereference:
  assumes "fst (getSingleAccountConfigFromTable env w) = Inr (a # as)"
    and "statusOutcome env a = Resolves resp"
    and "stateOf resp = Some ''SUCCEEDED''"
    and "CreateAccountStatus resp = Some st"
  shows "dereferenceFailed (fst (handler env w))
       = ((truthy (GovCloudAccountId st) \<longrightarrow> mappingPutResolves env) \<and> rootMissing env)
     \<and> (dereferenceFailed (fst (handler env w))
        \<or> callRejected (fst (handler env w))
        \<or> fst (handler env w) = Inr \<lparr>IsComplete = False\<rparr>)"
proof -
  have h: "handler env w = succeeded env a st (logCall (statusCall a) (logCall Scan w))"
    by (rule handler_succeeded[OF assms])
  show ?thesis unfolding h by (rule succeeded_outcomes)
qed

theorem root_dereference_witness:
  "fst (getSingleAccountConfigFromTable exampleEnv pendingWorld)
     = Inr [exampleConfig\<lparr>createRequestId := Some ''req-1''\<rparr>]
   \<and> statusOutcome exampleEnv (exampleConfig\<lparr>createRequestId := Some ''req-1''\<rparr>)
       = Resolves succeededResponse
   \<and> stateOf succeededResponse = Some ''SUCCEEDED''
   \<and> \<not> rootMissing exampleEnv
   \<and> \<not> dereferenceFailed (fst (handler exampleEnv pendingWorld))
   \<and> rootMissing noRootEnv
   \<and> dereferenceFailed (fst (handler noRootEnv pendingWorld))
   \<and> statusOutcome govNoRootEnv (exampleConfig\<lparr>createRequestId := Some ''req-1''\<rparr>)
       = Resolves govSucceededResponse
   \<and> mappingPutResolves govNoRootEnv
   \<and> rootMissing govNoRootEnv
   \<and> dereferenceFailed (fst (handler govNoRootEnv pendingWorld))"
proof -
  let ?a = "exampleConfig\<lparr>createRequestId := Some ''req-1''\<rparr>"
  let ?st = "\<lparr>Id' = Some ''req-1'', AccountName = Some ''a'', State = Some ''SUCCEEDED'',
         AccountId = Some ''111'', GovCloudAccountId = None, FailureReason = None\<rparr>"
  let ?gst = "\<lparr>Id' = Some ''req-1'', AccountName = Some ''a'', State = Some ''SUCCEEDED'',
         AccountId = Some ''111'', GovCloudAccountId = Some ''222'', FailureReason = None\<rparr>"
  have g: "fst (getSingleAccountConfigFromTable exampleEnv pendingWorld) = Inr [?a]"
    "fst (getSingleAccountConfigFromTable noRootEnv pendingWorld) = Inr [?a]"
    "fst (getSingleAccountConfigFromTable govNoRootEnv pendingWorld) = Inr [?a]"
    by (simp_all add: getSingle_eq exampleEnv_def noRootEnv_def govNoRootEnv_def pendingWorld_def)
  have o: "statusOutcome exampleEnv ?a = Resolves succeededResponse"
    "statusOutcome noRootEnv ?a = Resolves succeededResponse"
    "statusOutcome govNoRootEnv ?a = Resolves govSucceededResponse"
    by (simp_all add: statusOutcome_def exampleEnv_def noRootEnv_def govNoRootEnv_def)
  have s: "stateOf succeededResponse = Some ''SUCCEEDED''"
    "stateOf govSucceededResponse = Some ''SUCCEEDED''"
    by (simp_all add: stateOf_def succeededResponse_def govSucceededResponse_def)
  have c: "CreateAccountStatus succeededResponse = Some ?st"
    "CreateAccountStatus govSucceededResponse = Some ?gst"
    by (simp_all add: succeededResponse_def govSucceededResponse_def)
  have r: "\<not> rootMissing exampleEnv" "rootMissing noRootEnv" "rootMissing govNoRootEnv"
    by (simp_all add: rootMissing_def rootOrgOf_def exampleEnv_def noRootEnv_def govNoRootEnv_def)
  have m: "mappingPutResolves govNoRootEnv"
    by (simp add: mappingPutResolves_def govNoRootEnv_def exampleEnv_def)
  have t: "\<not> truthy (GovCloudAccountId ?st)" "truthy (GovCloudAccountId ?gst)"
    by (simp_all add: truthy_def)
  from root_dereference[OF g(1) o(1) s(1) c(1)]
    root_dereference[OF g(2) o(2) s(1) c(1)]
    root_dereference[OF g(3) o(3) s(2) c(2)]
    g(1) o(1) o(3) s(1) r m t
  show ?thesis by simp
qed

text \<open>
  C10 as stated fails on a succeeded response with a GovCloud id and no \<open>AccountName\<close>:
  no error branch is reached. The mapping is put without a name, the account is moved, the configuration is
  deleted and the handler returns \<open>IsComplete = false\<close>.
\<close>

theorem absent_account_name_no_error:
  "stateOf govNoNameResponse = Some ''SUCCEEDED''
   \<and> truthy (GovCloudAccountId (the (CreateAccountStatus govNoNameResponse)))
   \<and> AccountName (the (CreateAccountStatus govNoNameResponse)) = None
   \<and> handler govNoNameEnv pendingWorld =
     (Inr \<lparr>IsComplete = False\<rparr>,
      \<lparr>newOrgAccountsTable = [],
       govCloudAccountMappingTable = [(''111'', (''222'', None))],
       calls = [Scan, DescribeCreateAccountStatus ''req-1'',
                PutGovCloudMapping (Some ''111'') ''222'' None, ListRoots,
                MoveAccount (Some ''111'') ''ou-1'' (Some ''r-1''),
                DeleteAccountConfig ''a@x.com'']\<rparr>)"
  by (simp add: handler_defs example_defs)


subsection \<open>Three invocations\<close>

text \<open>
  C6. The table holds one configuration, stored under its email, with no request id, a
  variant flag that is not the string \<open>true\<close> and the organizational unit \<open>ou-1\<close>;
  Create resolves in progress with the id \<open>req-1\<close>, the status of \<open>req-1\<close> resolves
  succeeded with the account \<open>111\<close> and no GovCloud id, a root named \<open>Root\<close> with an id
  is listed, and the move and the two writes resolve with status 200. Then the first
  invocation stores the request id and returns \<open>IsComplete = false\<close>; the second moves
  \<open>111\<close> from the root to \<open>ou-1\<close>, deletes the row, puts nothing into the mapping table
  and returns \<open>IsComplete = false\<close>; the third finds the table empty and returns
  \<open>IsComplete = true\<close>.
\<close>

theorem three_call_scenario:
  assumes store: "newOrgAccountsTable w = [(email a, a)]"
    and fresh: "createRequestId a = None"
    and variant: "enableGovCloud a \<noteq> JString ''true''"
    and ou: "organizationalUnitId a = ''ou-1''"
    and scan: "scanRejects env = None"
    and create: "createAccountOutcome env (email a) (name a) = Resolves resp1"
      "CreateAccountStatus resp1 = Some st1"
      "State st1 = Some ''IN_PROGRESS''" "Id' st1 = Some ''req-1''"
    and status: "describeCreateAccountStatusOutcome env ''req-1'' = Resolves resp2"
      "CreateAccountStatus resp2 = Some st2"
      "State st2 = Some ''SUCCEEDED''" "AccountId st2 = Some ''111''"
      "GovCloudAccountId st2 = None"
    and roots: "listRootsOutcome env = Resolves roots" "rootOrgOf roots = Some r"
      "RootId r = Some rootId"
    and move: "moveAccountOutcome env (Some ''111'') ''ou-1'' (Some rootId) = Resolves 200"
    and writes: "putAccountConfigOutcome env = Resolves 200" "deleteOutcome env = Resolves 200"
  shows "fst (handler env w) = Inr \<lparr>IsComplete = False\<rparr>
       \<and> issued env w = [Scan, CreateAccount (email a) (name a),
            PutAccountConfig (email a) (a\<lparr>createRequestId := Some ''req-1''\<rparr>)]
       \<and> newOrgAccountsTable (invocations [env] w)
           = [(email a, a\<lparr>createRequestId := Some ''req-1''\<rparr>)]
       \<and> fst (handler env (invocations [env] w)) = Inr \<lparr>IsComplete = False\<rparr>
       \<and> issued env (invocations [env] w)
           = [Scan, DescribeCreateAccountStatus ''req-1'', ListRoots,
              MoveAccount (Some ''111'') ''ou-1'' (Some rootId), DeleteAccountConfig (email a)]
       \<and> newOrgAccountsTable (invocations [env, env] w) = []
       \<and> govCloudAccountMappingTable (invocations [env, env] w) = govCloudAccountMappingTable w
       \<and> fst (handler env (invocations [env, env] w)) = Inr \<lparr>IsComplete = True\<rparr>
       \<and> issued env (invocations [env, env] w) = [Scan]"
proof -
  let ?a' = "a\<lparr>createRequestId := Some ''req-1''\<rparr>"
  let ?w1 = "w\<lparr>newOrgAccountsTable := [(email a, ?a')],
              calls := calls w @ [Scan, CreateAccount (email a) (name a),
                PutAccountConfig (email a) ?a']\<rparr>"
  let ?w2 = "w\<lparr>newOrgAccountsTable := [],
              calls := calls ?w1 @ [Scan, DescribeCreateAccountStatus ''req-1'',
                ListRoots, MoveAccount (Some ''111'') ''ou-1'' (Some rootId), DeleteAccountConfig (email a)]\<rparr>"
  have h1: "handler env w = (Inr \<lparr>IsComplete = False\<rparr>, ?w1)"
    using store fresh variant scan create writes(1)
    by (simp add: handler_def getSingle_eq bindE_def createOrganizationAccount_def
          remoteCall_def logCall_def stateOf_def updateAccountConfig_def storeWrite_def
          returnE_def)
  have h2: "handler env ?w1 = (Inr \<lparr>IsComplete = False\<rparr>, ?w2)"
    using ou scan status roots move writes(2)
    by (simp add: handler_def getSingle_eq succeeded_def bindE_def getAccountCreationStatus_def
          moveAccountToOrgIdFromRoot_def deleteSingleAccountConfigFromTable_def
          remoteCall_def logCall_def stateOf_def storeWrite_def truthy_def
          returnE_def rootOrgOf_def Let_def)
  have h3: "handler env w' = (Inr \<lparr>IsComplete = True\<rparr>, w'\<lparr>calls := calls w' @ [Scan]\<rparr>)"
    if "newOrgAccountsTable w' = []" for w'
    using scan that
    by (simp add: handler_def getSingle_eq bindE_def logCall_def returnE_def)
  show ?thesis by (simp add: issued_def h1 h2 h3)
qed

theorem three_call_scenario_witness:
  "newOrgAccountsTable exampleWorld = [(email exampleConfig, exampleConfig)]
   \<and> createRequestId exampleConfig = None
   \<and> enableGovCloud exampleConfig \<noteq> JString ''true''
   \<and> organizationalUnitId exampleConfig = ''ou-1''
   \<and> fst (handler exampleEnv exampleWorld) = Inr \<lparr>IsComplete = False\<rparr>
   \<and> newOrgAccountsTable (invocations [exampleEnv] exampleWorld)
       = [(''a@x.com'', exampleConfig\<lparr>createRequestId := Some ''req-1''\<rparr>)]
   \<and> fst (handler exampleEnv (invocations [exampleEnv] exampleWorld))
       = Inr \<lparr>IsComplete = False\<rparr>
   \<and> issued exampleEnv (invocations [exampleEnv] exampleWorld)
       = [Scan, DescribeCreateAccountStatus ''req-1'', ListRoots,
          MoveAccount (Some ''111'') ''ou-1'' (Some ''r-1''), DeleteAccountConfig ''a@x.com'']
   \<and> newOrgAccountsTable (invocations [exampleEnv, exampleEnv] exampleWorld) = []
   \<and> govCloudAccountMappingTable (invocations [exampleEnv, exampleEnv] exampleWorld) = []
   \<and> fst (handler exampleEnv (invocations [exampleEnv, exampleEnv] exampleWorld))
       = Inr \<lparr>IsComplete = True\<rparr>"
proof -
  let ?st1 = "\<lparr>Id' = Some ''req-1'', AccountName = Some ''a'', State = Some ''IN_PROGRESS'',
         AccountId = None, GovCloudAccountId = None, FailureReason = None\<rparr>"
  let ?st2 = "\<lparr>Id' = Some ''req-1'', AccountName = Some ''a'', State = Some ''SUCCEEDED'',
         AccountId = Some ''111'', GovCloudAccountId = None, FailureReason = None\<rparr>"
  let ?roots = "\<lparr>Roots = Some [\<lparr>RootId = Some ''r-1'', Name = Some ''Root''\<rparr>]\<rparr>"
  let ?r = "\<lparr>RootId = Some ''r-1'', Name = Some ''Root''\<rparr>"
  have store: "newOrgAccountsTable exampleWorld = [(email exampleConfig, exampleConfig)]"
    by (simp add: exampleWorld_def exampleConfig_def)
  have cfg: "createRequestId exampleConfig = None"
    "enableGovCloud exampleConfig \<noteq> JString ''true''"
    "organizationalUnitId exampleConfig = ''ou-1''"
    by (simp_all add: exampleConfig_def)
  have e: "email exampleConfig = ''a@x.com''" by (simp add: exampleConfig_def)
  have scan: "scanRejects exampleEnv = None" by (simp add: exampleEnv_def)
  have create: "createAccountOutcome exampleEnv (email exampleConfig) (name exampleConfig)
                  = Resolves inProgressResponse"
    "CreateAccountStatus inProgressResponse = Some ?st1"
    "State ?st1 = Some ''IN_PROGRESS''" "Id' ?st1 = Some ''req-1''"
    by (simp_all add: exampleEnv_def inProgressResponse_def)
  have status: "describeCreateAccountStatusOutcome exampleEnv ''req-1'' = Resolves succeededResponse"
    "CreateAccountStatus succeededResponse = Some ?st2"
    "State ?st2 = Some ''SUCCEEDED''" "AccountId ?st2 = Some ''111''"
    "GovCloudAccountId ?st2 = None"
    by (simp_all add: exampleEnv_def succeededResponse_def)
  have roots: "listRootsOutcome exampleEnv = Resolves ?roots" "rootOrgOf ?roots = Some ?r"
    "RootId ?r = Some ''r-1''"
    by (simp_all add: exampleEnv_def rootOrgOf_def)
  have move: "moveAccountOutcome exampleEnv (Some ''111'') ''ou-1'' (Some ''r-1'') = Resolves 200"
    by (simp add: exampleEnv_def)
  have writes: "putAccountConfigOutcome exampleEnv = Resolves 200"
    "deleteOutcome exampleEnv = Resolves 200"
    by (simp_all add: exampleEnv_def)
  note t = three_call_scenario[OF store cfg scan create status roots move writes, unfolded e]
  have m: "govCloudAccountMappingTable exampleWorld = []" by (simp add: exampleWorld_def)
  from t store cfg m show ?thesis by simp
qed

end
